theory Spec2Isabelle
  imports Main
begin

section \<open>JavaScript values\<close>

text \<open>
  The license console is untyped JavaScript: the status document that reaches
  \<open>normalizeLicenseStatus\<close> is whatever \<open>request\<close> in \<open>httpClient.js\<close> resolved
  with (\<open>null\<close>, the result of \<open>JSON.parse\<close>, or the body text itself), so the model
  works over a universe of JavaScript values rather than over a typed document.

  Numbers are modelled by integers: the code inspects a number only for being zero
  (truthiness) and, in a template literal or as a property key, for its text.
  \<open>JFunction\<close> is a
  built-in function and \<open>JBuiltinObject\<close> a built-in prototype object; no JSON text
  parses to either, they are what a property lookup finds on the prototype chain.
\<close>

datatype jsval =
    JUndefined
  | JNull
  | JBool bool
  | JNum int
  | JStr string
  | JArr "jsval list"
  | JObj "(string \<times> jsval) list"
  | JFunction
  | JBuiltinObject

datatype js_error =
    TypeError string
  | HttpError nat jsval

text \<open>Sequencing of computations that may throw: the first exception wins.\<close>

definition bindE :: "js_error + 'a \<Rightarrow> ('a \<Rightarrow> js_error + 'b) \<Rightarrow> js_error + 'b" where
  "bindE m f = (case m of Inl e \<Rightarrow> Inl e | Inr v \<Rightarrow> f v)"

text \<open>\<open>Boolean(v)\<close>, also the test of \<open>!v\<close>, \<open>v || d\<close> and \<open>if (v)\<close>.\<close>

fun truthy :: "jsval \<Rightarrow> bool" where
  "truthy JUndefined = False"
| "truthy JNull = False"
| "truthy (JBool b) = b"
| "truthy (JNum n) = (n \<noteq> 0)"
| "truthy (JStr s) = (s \<noteq> [])"
| "truthy (JArr xs) = True"
| "truthy (JObj kvs) = True"
| "truthy JFunction = True"
| "truthy JBuiltinObject = True"

text \<open>\<open>typeof v\<close>.\<close>

fun js_typeof :: "jsval \<Rightarrow> string" where
  "js_typeof JUndefined = ''undefined''"
| "js_typeof JNull = ''object''"
| "js_typeof (JBool b) = ''boolean''"
| "js_typeof (JNum n) = ''number''"
| "js_typeof (JStr s) = ''string''"
| "js_typeof (JArr xs) = ''object''"
| "js_typeof (JObj kvs) = ''object''"
| "js_typeof JFunction = ''function''"
| "js_typeof JBuiltinObject = ''object''"

text \<open>\<open>v ?? d\<close> replaces only \<open>null\<close> and \<open>undefined\<close>; \<open>v || d\<close> replaces every falsy value.\<close>

definition nullish_or :: "jsval \<Rightarrow> jsval \<Rightarrow> jsval" where
  "nullish_or v d = (if v = JUndefined \<or> v = JNull then d else v)"

definition falsy_or :: "jsval \<Rightarrow> jsval \<Rightarrow> jsval" where
  "falsy_or v d = (if truthy v then v else d)"

subsection \<open>Conversion to text\<close>

definition digit_char :: "nat \<Rightarrow> char" where
  "digit_char d = char_of (48 + d)"

fun nat_digits :: "nat \<Rightarrow> string" where
  "nat_digits n = (if n < 10 then [digit_char n] else nat_digits (n div 10) @ [digit_char (n mod 10)])"

declare nat_digits.simps [simp del]

definition int_digits :: "int \<Rightarrow> string" where
  "int_digits i = (if i < 0 then CHR ''-'' # nat_digits (nat (- i)) else nat_digits (nat i))"

fun join_comma :: "string list \<Rightarrow> string" where
  "join_comma [] = []"
| "join_comma [s] = s"
| "join_comma (s # t # ss) = s @ '','' @ join_comma (t # ss)"

text \<open>
  The text of a number. A safe integer prints as its decimal digits. Beyond the safe
  integers JavaScript prints the shortest digits that read back as the same number,
  in exponent form from \<open>10^21\<close>, and the language leaves the choice among equally
  short texts to the runtime: that text is the parameter \<open>big\<close>.
\<close>

definition number_to_string :: "(int \<Rightarrow> string) \<Rightarrow> int \<Rightarrow> string" where
  "number_to_string big n = (if \<bar>n\<bar> \<le> 9007199254740991 then int_digits n else big n)"

text \<open>Conversions in sequence, left to right: the first that throws ends them.\<close>

fun sequenceE :: "(js_error + 'a) list \<Rightarrow> js_error + 'a list" where
  "sequenceE [] = Inr []"
| "sequenceE (m # ms) = bindE m (\<lambda>v. bindE (sequenceE ms) (\<lambda>vs. Inr (v # vs)))"

text \<open>
  \<open>String(v)\<close>, which a template literal and a computed property key apply. It can
  throw. An object is converted by its \<open>toString\<close>: the inherited one gives
  \<open>[object Object]\<close>; an own member of that name, which in a document is never a
  function, is passed over, \<open>valueOf\<close> gives no primitive either, and the conversion
  throws a TypeError (a member holding a built-in function, which no document has, is
  not told apart from the others). An array joins the texts of its elements with commas, \<open>null\<close>
  and \<open>undefined\<close> elements giving the empty text, and throws when an element does.
  The text of a built-in function is left to the implementation by the language and
  stands here as a fixed placeholder.
\<close>

fun js_to_string :: "(int \<Rightarrow> string) \<Rightarrow> jsval \<Rightarrow> js_error + string" where
  "js_to_string big JUndefined = Inr ''undefined''"
| "js_to_string big JNull = Inr ''null''"
| "js_to_string big (JBool b) = Inr (if b then ''true'' else ''false'')"
| "js_to_string big (JNum n) = Inr (number_to_string big n)"
| "js_to_string big (JStr s) = Inr s"
| "js_to_string big (JArr xs) =
     bindE (sequenceE (map (\<lambda>v. if v = JUndefined \<or> v = JNull then Inr []
                                  else js_to_string big v) xs))
       (\<lambda>ts. Inr (join_comma ts))"
| "js_to_string big (JObj kvs) =
     (case map_of (rev kvs) ''toString'' of
        None \<Rightarrow> Inr ''[object Object]''
      | Some f \<Rightarrow> Inl (TypeError ''Cannot convert object to primitive value''))"
| "js_to_string big JFunction = Inr ''function () { [native code] }''"
| "js_to_string big JBuiltinObject = Inr ''[object Object]''"

subsection \<open>Property lookup\<close>

text \<open>
  The properties every value inherits from \<open>Object.prototype\<close>: its methods are
  functions, and \<open>__proto__\<close> reads the prototype object. The further methods of
  \<open>Array.prototype\<close>, \<open>String.prototype\<close>, \<open>Number.prototype\<close> and
  \<open>Boolean.prototype\<close> vary with the language edition and are not listed: they are
  functions too, none is named like a key the code reads, and the code answers a
  function and \<open>undefined\<close> alike.
\<close>

definition object_prototype_methods :: "string list" where
  "object_prototype_methods =
     [''constructor'', ''hasOwnProperty'', ''isPrototypeOf'', ''propertyIsEnumerable'',
      ''toLocaleString'', ''toString'', ''valueOf'', ''__defineGetter__'',
      ''__defineSetter__'', ''__lookupGetter__'', ''__lookupSetter__'']"

definition inherited :: "string \<Rightarrow> jsval" where
  "inherited k =
     (if k = ''__proto__'' then JBuiltinObject
      else if k \<in> set object_prototype_methods then JFunction
      else JUndefined)"

definition has_inherited :: "string \<Rightarrow> bool" where
  "has_inherited k = (k = ''__proto__'' \<or> k \<in> set object_prototype_methods)"

text \<open>
  The index a property key denotes in a sequence of length \<open>n\<close>: the key is the
  canonical decimal text of a position below \<open>n\<close>.
\<close>

definition index_of_key :: "nat \<Rightarrow> string \<Rightarrow> nat option" where
  "index_of_key n k = find (\<lambda>i. nat_digits i = k) [0..<n]"

text \<open>
  \<open>v[k]\<close> and \<open>v.k\<close>. Reading a property of \<open>null\<close> or \<open>undefined\<close> throws a
  TypeError. An object built by \<open>JSON.parse\<close> keeps, of several members with one
  name, the last; a name that is no own property is looked up on the prototype chain.
  An array and a text own their positions and \<open>length\<close>. The two built-in values
  are opaque: of their properties only the inherited ones are modelled.
\<close>

fun get_prop :: "jsval \<Rightarrow> string \<Rightarrow> js_error + jsval" where
  "get_prop JUndefined k = Inl (TypeError ''Cannot read properties of undefined'')"
| "get_prop JNull k = Inl (TypeError ''Cannot read properties of null'')"
| "get_prop (JObj kvs) k =
     Inr (case map_of (rev kvs) k of Some v \<Rightarrow> v | None \<Rightarrow> inherited k)"
| "get_prop (JArr xs) k =
     Inr (case index_of_key (length xs) k of
            Some i \<Rightarrow> xs ! i
          | None \<Rightarrow> if k = ''length'' then JNum (int (length xs)) else inherited k)"
| "get_prop (JStr s) k =
     Inr (case index_of_key (length s) k of
            Some i \<Rightarrow> JStr [s ! i]
          | None \<Rightarrow> if k = ''length'' then JNum (int (length s)) else inherited k)"
| "get_prop (JBool b) k = Inr (inherited k)"
| "get_prop (JNum n) k = Inr (inherited k)"
| "get_prop JFunction k = Inr (inherited k)"
| "get_prop JBuiltinObject k = Inr (inherited k)"

text \<open>\<open>k in v\<close>: own or inherited; on a value that is no object it throws a TypeError.\<close>

fun has_prop :: "string \<Rightarrow> jsval \<Rightarrow> js_error + bool" where
  "has_prop k (JObj kvs) = Inr (k \<in> set (map fst kvs) \<or> has_inherited k)"
| "has_prop k (JArr xs) =
     Inr (index_of_key (length xs) k \<noteq> None \<or> k = ''length'' \<or> has_inherited k)"
| "has_prop k JFunction = Inr (has_inherited k)"
| "has_prop k JBuiltinObject = Inr (has_inherited k)"
| "has_prop k v = Inl (TypeError ''Cannot use in operator to search for a key in a primitive'')"

section \<open>The normalizer\<close>

text \<open>The object literal that \<open>normalizeLicenseStatus\<close> returns, field by field.\<close>

record license_snapshot =
  status :: jsval
  statusMessage :: jsval
  isValid :: bool
  licenseId :: jsval
  customerName :: jsval
  editionCode :: jsval
  editionName :: jsval
  licenseType :: jsval
  validFrom :: jsval
  validUntil :: jsval
  features :: jsval
  limits :: jsval
  warnings :: "jsval list"
  raw :: jsval

text \<open>\<open>Array.isArray(v) ? v : []\<close>, as the elements of the resulting array.\<close>

fun array_or_empty :: "jsval \<Rightarrow> jsval list" where
  "array_or_empty (JArr xs) = xs"
| "array_or_empty v = []"

text \<open>
  \<open>normalizeLicenseStatus(raw)\<close>: \<open>None\<close> is the \<open>null\<close> it returns for a falsy
  document. The thirteen property reads happen in the order of the literal.
\<close>

definition normalizeLicenseStatus :: "jsval \<Rightarrow> js_error + license_snapshot option" where
  "normalizeLicenseStatus r =
     (if \<not> truthy r then Inr None
      else
        bindE (get_prop r ''status'') (\<lambda>v_status.
        bindE (get_prop r ''status_message'') (\<lambda>v_status_message.
        bindE (get_prop r ''is_valid'') (\<lambda>v_is_valid.
        bindE (get_prop r ''license_id'') (\<lambda>v_license_id.
        bindE (get_prop r ''customer_name'') (\<lambda>v_customer_name.
        bindE (get_prop r ''edition_code'') (\<lambda>v_edition_code.
        bindE (get_prop r ''edition_name'') (\<lambda>v_edition_name.
        bindE (get_prop r ''license_type'') (\<lambda>v_license_type.
        bindE (get_prop r ''valid_from'') (\<lambda>v_valid_from.
        bindE (get_prop r ''valid_until'') (\<lambda>v_valid_until.
        bindE (get_prop r ''features'') (\<lambda>v_features.
        bindE (get_prop r ''limits'') (\<lambda>v_limits.
        bindE (get_prop r ''warnings'') (\<lambda>v_warnings.
          Inr (Some \<lparr>
            status = nullish_or v_status (JStr ''unknown''),
            statusMessage = nullish_or v_status_message (JStr []),
            isValid = truthy v_is_valid,
            licenseId = nullish_or v_license_id JNull,
            customerName = nullish_or v_customer_name JNull,
            editionCode = nullish_or v_edition_code JNull,
            editionName = nullish_or v_edition_name JNull,
            licenseType = nullish_or v_license_type JNull,
            validFrom = nullish_or v_valid_from JNull,
            validUntil = nullish_or v_valid_until JNull,
            features = falsy_or v_features (JObj []),
            limits = falsy_or v_limits (JObj []),
            warnings = array_or_empty v_warnings,
            raw = r
          \<rparr>)))))))))))))))"

section \<open>The fetch collaborator\<close>




section \<open>The status store\<close>

text \<open>The three state cells of \<open>LicenseProvider\<close>.\<close>

record provider_state =
  license :: "license_snapshot option"
  loading :: bool
  error :: "js_error option"

text \<open>What \<open>loadStatus\<close> does to the outside, in the order it does it.\<close>

datatype effect =
    SetLoading bool
  | SetError "js_error option"
  | SetLicense "license_snapshot option"
  | ConsoleError js_error

fun apply_effect :: "provider_state \<Rightarrow> effect \<Rightarrow> provider_state" where
  "apply_effect st (SetLoading b) = st\<lparr>loading := b\<rparr>"
| "apply_effect st (SetError e) = st\<lparr>error := e\<rparr>"
| "apply_effect st (SetLicense l) = st\<lparr>license := l\<rparr>"
| "apply_effect st (ConsoleError e) = st"

text \<open>
  A statement sequence is the effects it has performed together with how it ended:
  \<open>Inl\<close> an exception in flight, \<open>Inr\<close> a normal completion.
\<close>

type_synonym 'a comp = "effect list \<times> (js_error + 'a)"

definition emit :: "effect \<Rightarrow> unit comp" where
  "emit e = ([e], Inr ())"

definition settled :: "js_error + 'a \<Rightarrow> 'a comp" where
  "settled r = ([], r)"

definition seq :: "'a comp \<Rightarrow> ('a \<Rightarrow> 'b comp) \<Rightarrow> 'b comp" where
  "seq m f =
     (case m of
        (es, Inl e) \<Rightarrow> (es, Inl e)
      | (es, Inr v) \<Rightarrow> (case f v of (es', r) \<Rightarrow> (es @ es', r)))"

text \<open>\<open>try { body } catch (err) { handler }\<close> and \<open>... finally { finalizer }\<close>.\<close>

definition try_catch :: "'a comp \<Rightarrow> (js_error \<Rightarrow> 'a comp) \<Rightarrow> 'a comp" where
  "try_catch body handler =
     (case body of
        (es, Inl e) \<Rightarrow> (case handler e of (es', r) \<Rightarrow> (es @ es', r))
      | (es, Inr v) \<Rightarrow> (es, Inr v))"

definition try_finally :: "'a comp \<Rightarrow> unit comp \<Rightarrow> 'a comp" where
  "try_finally body finalizer =
     (case body of (es, r) \<Rightarrow>
        (case finalizer of
           (es', Inl e) \<Rightarrow> (es @ es', Inl e)
         | (es', Inr u) \<Rightarrow> (es @ es', r)))"

text \<open>
  The body of \<open>loadStatus\<close>; \<open>fetched\<close> is how the awaited \<open>fetchLicenseStatus()\<close>
  settled, \<open>Inl\<close> a rejection.
\<close>

definition loadStatus_body :: "js_error + jsval \<Rightarrow> unit comp" where
  "loadStatus_body fetched =
     seq (emit (SetLoading True)) (\<lambda>_.
     seq (emit (SetError None)) (\<lambda>_.
     try_finally
       (try_catch
          (seq (settled fetched) (\<lambda>r.
           seq (settled (normalizeLicenseStatus r)) (\<lambda>normalized.
           emit (SetLicense normalized))))
          (\<lambda>err.
           seq (emit (ConsoleError err)) (\<lambda>_.
           seq (emit (SetError (Some err))) (\<lambda>_.
           emit (SetLicense None)))))
       (emit (SetLoading False))))"

text \<open>
  One run of \<open>loadStatus\<close> from a state of the store: how the promise it returns
  settles, and the state after its effects.
\<close>

definition loadStatus :: "provider_state \<Rightarrow> js_error + jsval \<Rightarrow> (js_error + unit) \<times> provider_state" where
  "loadStatus st fetched =
     (case loadStatus_body fetched of (es, r) \<Rightarrow> (r, foldl apply_effect st es))"

section \<open>The entitlement evaluator\<close>

text \<open>
  \<open>canUse(featureKey)\<close> closes over the \<open>license\<close> cell of the store, here the
  argument \<open>lic\<close>; \<open>big\<close> is the runtime's text of large numbers, which the
  conversion of the key to a property key may need. In the \<open>boolean\<close> branch the value
  returned is the flag itself.
\<close>

definition canUse :: "(int \<Rightarrow> string) \<Rightarrow> license_snapshot option \<Rightarrow> jsval \<Rightarrow> js_error + bool" where
  "canUse big lic featureKey =
     (case lic of
        None \<Rightarrow> Inr False
      | Some l \<Rightarrow>
          if \<not> isValid l then Inr False
          else if \<not> truthy featureKey then Inr True
          else
            bindE (js_to_string big featureKey) (\<lambda>key.
            bindE (get_prop (falsy_or (features l) (JObj [])) key) (\<lambda>feature.
              if feature = JUndefined then Inr False
              else if js_typeof feature = ''boolean'' then Inr (truthy feature)
              else if js_typeof feature = ''object'' \<and> feature \<noteq> JNull then
                bindE (has_prop ''enabled'' feature) (\<lambda>present.
                  if present then bindE (get_prop feature ''enabled'') (\<lambda>enabled. Inr (truthy enabled))
                  else Inr True)
              else Inr False)))"

text \<open>
  \<open>disabledReason(featureKey, allowed)\<close> of the gating demo closes over the same
  \<open>license\<close>; \<open>allowed\<close> is the boolean \<open>canUse\<close> gave, \<open>None\<close> the \<open>null\<close> returned.
  The two template literals convert \<open>license.status\<close> and \<open>featureKey\<close> to text,
  which can throw.
\<close>

definition disabledReason :: "(int \<Rightarrow> string) \<Rightarrow> license_snapshot option \<Rightarrow> jsval \<Rightarrow> bool \<Rightarrow> js_error + string option" where
  "disabledReason big lic featureKey allowed =
     (if allowed then Inr None
      else case lic of
        None \<Rightarrow> Inr (Some ''No license installed'')
      | Some l \<Rightarrow>
          if \<not> isValid l then
            bindE (js_to_string big (status l)) (\<lambda>t. Inr (Some (''License status: '' @ t)))
          else
            bindE (js_to_string big featureKey) (\<lambda>t.
              Inr (Some (''Feature '' @ [CHR 0x27] @ t @ [CHR 0x27]
                         @ '' is not granted in this license''))))"

section \<open>Notions used by the statements\<close>

text \<open>
  The value a property read yields. It is used where the read cannot throw, that is
  on truthy values, where it agrees with \<open>get_prop\<close>.
\<close>

definition read_prop :: "jsval \<Rightarrow> string \<Rightarrow> jsval" where
  "read_prop r k = (case get_prop r k of Inr v \<Rightarrow> v | Inl e \<Rightarrow> JUndefined)"

text \<open>
  The feature map of the variant-resolution scenario
  \<open>{a: true, b: false, c: {enabled: true}, d: {enabled: false}, e: {note: 'x'}}\<close>, a
  status document carrying it, and the snapshot of that document.
\<close>

definition example_features :: jsval where
  "example_features =
     JObj [(''a'', JBool True), (''b'', JBool False),
           (''c'', JObj [(''enabled'', JBool True)]),
           (''d'', JObj [(''enabled'', JBool False)]),
           (''e'', JObj [(''note'', JStr ''x'')])]"

definition example_document :: jsval where
  "example_document =
     JObj [(''status'', JStr ''active''), (''is_valid'', JBool True),
           (''features'', example_features)]"

definition example_license :: license_snapshot where
  "example_license =
     \<lparr>status = JStr ''active'', statusMessage = JStr [], isValid = True,
      licenseId = JNull, customerName = JNull, editionCode = JNull,
      editionName = JNull, licenseType = JNull, validFrom = JNull,
      validUntil = JNull, features = example_features, limits = JObj [],
      warnings = [], raw = example_document\<rparr>"

definition expired_license :: license_snapshot where
  "expired_license = example_license\<lparr>status := JStr ''expired'', isValid := False\<rparr>"



text \<open>
  A document whose \<open>status\<close> is the object \<open>{"toString": 1}\<close>, and its snapshot.
\<close>

definition unprintable_document :: jsval where
  "unprintable_document = JObj [(''status'', JObj [(''toString'', JNum 1)])]"

definition unprintable_license :: license_snapshot where
  "unprintable_license =
     \<lparr>status = JObj [(''toString'', JNum 1)], statusMessage = JStr [], isValid = False,
      licenseId = JNull, customerName = JNull, editionCode = JNull,
      editionName = JNull, licenseType = JNull, validFrom = JNull,
      validUntil = JNull, features = JObj [], limits = JObj [],
      warnings = [], raw = unprintable_document\<rparr>"

text \<open>A document whose fields carry values of the wrong types.\<close>

definition wrongly_typed_document :: jsval where
  "wrongly_typed_document =
     JObj [(''status'', JNum 5), (''status_message'', JBool True),
           (''features'', JStr ''all''), (''limits'', JArr [JNum 1])]"

section \<open>Basic facts\<close>

lemma bindE_Inr [simp]: "bindE (Inr v) f = f v"
  by (simp add: bindE_def)

lemma bindE_Inl [simp]: "bindE (Inl e) f = Inl e"
  by (simp add: bindE_def)

lemma get_prop_truthy: "truthy r \<Longrightarrow> get_prop r k = Inr (read_prop r k)"
  by (cases r) (simp_all add: read_prop_def)

lemma falsy_iff: "(\<not> truthy r) = (r \<in> {JUndefined, JNull, JBool False, JNum 0, JStr []})"
  by (cases r) auto

lemma own_lookup_None: "(map_of (rev kvs) k = None) = (k \<notin> fst ` set kvs)"
  by (simp add: map_of_eq_None_iff)

text \<open>No position of a sequence is named \<open>enabled\<close>: a position's key ends in a digit.\<close>

lemma last_nat_digits: "last (nat_digits n) = digit_char (n mod 10)"
  by (subst nat_digits.simps) simp

lemma nat_digits_not_enabled: "nat_digits n \<noteq> ''enabled''"
proof
  assume "nat_digits n = ''enabled''"
  then have "last (nat_digits n) = CHR ''d''"
    by simp
  then have "digit_char (n mod 10) = CHR ''d''"
    by (simp add: last_nat_digits)
  then have "of_char (char_of (48 + n mod 10) :: char) = (of_char (CHR ''d'') :: nat)"
    by (simp add: digit_char_def)
  then show False
    by simp
qed

lemma index_of_key_enabled: "index_of_key n ''enabled'' = None"
  by (simp add: index_of_key_def find_None_iff nat_digits_not_enabled)

lemma not_inherited_enabled: "\<not> has_inherited ''enabled''"
  by (simp add: has_inherited_def object_prototype_methods_def)

section \<open>The normalizer: what it returns\<close>

lemma normalize_falsy: "\<not> truthy r \<Longrightarrow> normalizeLicenseStatus r = Inr None"
  by (simp add: normalizeLicenseStatus_def)

lemma normalize_truthy:
  assumes "truthy r"
  shows "normalizeLicenseStatus r = Inr (Some \<lparr>
            status = nullish_or (read_prop r ''status'') (JStr ''unknown''),
            statusMessage = nullish_or (read_prop r ''status_message'') (JStr []),
            isValid = truthy (read_prop r ''is_valid''),
            licenseId = nullish_or (read_prop r ''license_id'') JNull,
            customerName = nullish_or (read_prop r ''customer_name'') JNull,
            editionCode = nullish_or (read_prop r ''edition_code'') JNull,
            editionName = nullish_or (read_prop r ''edition_name'') JNull,
            licenseType = nullish_or (read_prop r ''license_type'') JNull,
            validFrom = nullish_or (read_prop r ''valid_from'') JNull,
            validUntil = nullish_or (read_prop r ''valid_until'') JNull,
            features = falsy_or (read_prop r ''features'') (JObj []),
            limits = falsy_or (read_prop r ''limits'') (JObj []),
            warnings = array_or_empty (read_prop r ''warnings''),
            raw = r\<rparr>)"
  using assms by (simp add: normalizeLicenseStatus_def get_prop_truthy)

lemma normalize_never_throws: "\<exists>n. normalizeLicenseStatus r = Inr n"
  by (cases "truthy r") (simp_all add: normalize_truthy normalize_falsy)

lemma array_or_empty_cases: "array_or_empty v = (case v of JArr xs \<Rightarrow> xs | _ \<Rightarrow> [])"
  by (cases v) simp_all

lemma array_or_empty_not_array: "\<forall>xs. v \<noteq> JArr xs \<Longrightarrow> array_or_empty v = []"
  by (cases v) simp_all

lemma normalize_example_document:
  "normalizeLicenseStatus example_document = Inr (Some example_license)"
  by (simp add: normalizeLicenseStatus_def example_document_def example_license_def
      inherited_def object_prototype_methods_def nullish_or_def falsy_or_def
      example_features_def)

text \<open>
  C3, as the code has it. For every truthy status document the snapshot is built field
  by field from what each read yields: \<open>status\<close> and \<open>statusMessage\<close> fall back to
  \<open>"unknown"\<close> and \<open>""\<close> only when the raw value is absent or \<open>null\<close>, and the seven
  optional fields to \<open>null\<close> likewise; \<open>isValid\<close> is the truthiness of \<open>is_valid\<close>;
  \<open>features\<close> and \<open>limits\<close> fall back to \<open>{}\<close> only when the raw value is falsy;
  \<open>warnings\<close> is the raw array and \<open>[]\<close> for anything that is no array; \<open>raw\<close> is the
  document itself. A present value of the wrong type is kept as it is, except in
  \<open>warnings\<close>.
\<close>

theorem normalize_field_defaults:
  assumes "truthy r"
  shows "\<exists>s. normalizeLicenseStatus r = Inr (Some s) \<and> raw s = r
    \<and> (\<forall>v. get_prop r ''status'' = Inr v \<longrightarrow>
          status s = (if v = JUndefined \<or> v = JNull then JStr ''unknown'' else v))
    \<and> (\<forall>v. get_prop r ''status_message'' = Inr v \<longrightarrow>
          statusMessage s = (if v = JUndefined \<or> v = JNull then JStr [] else v))
    \<and> (\<forall>v. get_prop r ''is_valid'' = Inr v \<longrightarrow> isValid s = truthy v)
    \<and> (\<forall>v. get_prop r ''license_id'' = Inr v \<longrightarrow>
          licenseId s = (if v = JUndefined then JNull else v))
    \<and> (\<forall>v. get_prop r ''customer_name'' = Inr v \<longrightarrow>
          customerName s = (if v = JUndefined then JNull else v))
    \<and> (\<forall>v. get_prop r ''edition_code'' = Inr v \<longrightarrow>
          editionCode s = (if v = JUndefined then JNull else v))
    \<and> (\<forall>v. get_prop r ''edition_name'' = Inr v \<longrightarrow>
          editionName s = (if v = JUndefined then JNull else v))
    \<and> (\<forall>v. get_prop r ''license_type'' = Inr v \<longrightarrow>
          licenseType s = (if v = JUndefined then JNull else v))
    \<and> (\<forall>v. get_prop r ''valid_from'' = Inr v \<longrightarrow>
          validFrom s = (if v = JUndefined then JNull else v))
    \<and> (\<forall>v. get_prop r ''valid_until'' = Inr v \<longrightarrow>
          validUntil s = (if v = JUndefined then JNull else v))
    \<and> (\<forall>v. get_prop r ''features'' = Inr v \<longrightarrow>
          features s = (if truthy v then v else JObj []))
    \<and> (\<forall>v. get_prop r ''limits'' = Inr v \<longrightarrow>
          limits s = (if truthy v then v else JObj []))
    \<and> (\<forall>v. get_prop r ''warnings'' = Inr v \<longrightarrow>
          warnings s = (case v of JArr xs \<Rightarrow> xs | _ \<Rightarrow> []))"
  using assms
  by (simp add: normalize_truthy get_prop_truthy nullish_or_def falsy_or_def
      array_or_empty_cases)

text \<open>
  The scenario document satisfies the hypothesis; its snapshot takes \<open>status\<close>,
  \<open>isValid\<close> and \<open>features\<close> from the document and the defaults elsewhere.
\<close>

theorem normalize_field_defaults_witness:
  "truthy example_document
   \<and> (\<exists>s. normalizeLicenseStatus example_document = Inr (Some s)
          \<and> raw s = example_document \<and> status s = JStr ''active''
          \<and> statusMessage s = JStr [] \<and> isValid s \<and> licenseId s = JNull
          \<and> features s = example_features \<and> limits s = JObj [] \<and> warnings s = [])"
proof -
  have t: "truthy example_document"
    by (simp add: example_document_def)
  have g: "get_prop example_document ''status'' = Inr (JStr ''active'')"
    "get_prop example_document ''status_message'' = Inr JUndefined"
    "get_prop example_document ''is_valid'' = Inr (JBool True)"
    "get_prop example_document ''license_id'' = Inr JUndefined"
    "get_prop example_document ''features'' = Inr example_features"
    "get_prop example_document ''limits'' = Inr JUndefined"
    "get_prop example_document ''warnings'' = Inr JUndefined"
    by (simp_all add: example_document_def inherited_def object_prototype_methods_def)
  have f: "truthy example_features"
    by (simp add: example_features_def)
  show ?thesis
    using normalize_field_defaults [OF t] t f by (clarsimp simp: g)
qed

text \<open>
  C3 as stated fails: a numeric \<open>status\<close>, a boolean \<open>status_message\<close>, a text
  \<open>features\<close> and an array \<open>limits\<close> are none of them replaced by the default.
\<close>

theorem normalize_keeps_wrong_types:
  "normalizeLicenseStatus wrongly_typed_document =
     Inr (Some \<lparr>status = JNum 5, statusMessage = JBool True, isValid = False,
                 licenseId = JNull, customerName = JNull, editionCode = JNull,
                 editionName = JNull, licenseType = JNull, validFrom = JNull,
                 validUntil = JNull, features = JStr ''all'', limits = JArr [JNum 1],
                 warnings = [], raw = wrongly_typed_document\<rparr>)"
  by (simp add: normalizeLicenseStatus_def wrongly_typed_document_def inherited_def
      object_prototype_methods_def nullish_or_def falsy_or_def)

text \<open>
  C4, as the code has it. \<open>normalizeLicenseStatus\<close> returns \<open>null\<close> exactly for the
  falsy inputs: \<open>undefined\<close>, \<open>null\<close>, \<open>false\<close>, \<open>0\<close> and the empty text. Every other
  input, \<open>{}\<close> and documents with wrongly typed fields among them, gives a snapshot
  with all its fields, whose \<open>raw\<close> is the input.
\<close>

theorem normalize_null_iff_falsy:
  "(normalizeLicenseStatus r = Inr None) = (r \<in> {JUndefined, JNull, JBool False, JNum 0, JStr []})
   \<and> (r \<notin> {JUndefined, JNull, JBool False, JNum 0, JStr []}
        \<longrightarrow> (\<exists>s. normalizeLicenseStatus r = Inr (Some s) \<and> raw s = r))"
proof (cases "truthy r")
  case True
  then have "r \<notin> {JUndefined, JNull, JBool False, JNum 0, JStr []}"
    using falsy_iff [of r] by simp
  with True show ?thesis
    by (simp add: normalize_truthy)
next
  case False
  then have "r \<in> {JUndefined, JNull, JBool False, JNum 0, JStr []}"
    using falsy_iff [of r] by simp
  with False show ?thesis
    by (simp add: normalize_falsy)
qed

text \<open>The empty document \<open>{}\<close> is not falsy and gives a snapshot; \<open>0\<close> gives \<open>null\<close>.\<close>

theorem normalize_null_iff_falsy_witness:
  "JObj [] \<notin> {JUndefined, JNull, JBool False, JNum 0, JStr []}
   \<and> (\<exists>s. normalizeLicenseStatus (JObj []) = Inr (Some s) \<and> raw s = JObj [])
   \<and> normalizeLicenseStatus (JNum 0) = Inr None"
proof -
  have h: "JObj [] \<notin> {JUndefined, JNull, JBool False, JNum 0, JStr []}"
    by simp
  have "\<exists>s. normalizeLicenseStatus (JObj []) = Inr (Some s) \<and> raw s = JObj []"
    using normalize_null_iff_falsy [of "JObj []"] h by blast
  moreover have "normalizeLicenseStatus (JNum 0) = Inr None"
    using normalize_null_iff_falsy [of "JNum 0"] by simp
  ultimately show ?thesis
    using h by blast
qed

text \<open>
  C4 as stated fails: the document \<open>false\<close>, which is what a response body \<open>false\<close>
  parses to, is not \<open>null\<close>, and the normalizer returns \<open>null\<close> for it.
\<close>

theorem normalize_false_is_null:
  "normalizeLicenseStatus (JBool False) = Inr None \<and> JBool False \<noteq> JNull"
  by (simp add: normalizeLicenseStatus_def)

text \<open>
  C7. \<open>normalizeLicenseStatus\<close> never throws: on every input, whatever its shape, it
  completes normally. A \<open>warnings\<close> field that is no array gives the empty sequence.
  The result is a function of the input alone.
\<close>

theorem normalize_total:
  "(\<exists>res. normalizeLicenseStatus r = Inr res)
   \<and> (\<forall>s v. normalizeLicenseStatus r = Inr (Some s) \<longrightarrow> get_prop r ''warnings'' = Inr v
          \<longrightarrow> (\<forall>xs. v \<noteq> JArr xs) \<longrightarrow> warnings s = [])"
proof (cases "truthy r")
  case True
  then show ?thesis
    by (auto simp: normalize_truthy get_prop_truthy array_or_empty_not_array)
next
  case False
  then show ?thesis
    by (simp add: normalize_falsy)
qed

text \<open>
  A document whose \<open>warnings\<close> is a text: normalization completes, with no warnings.
\<close>

theorem normalize_total_witness:
  "normalizeLicenseStatus (JObj [(''warnings'', JStr ''soon'')]) =
     Inr (Some \<lparr>status = JStr ''unknown'', statusMessage = JStr [], isValid = False,
                 licenseId = JNull, customerName = JNull, editionCode = JNull,
                 editionName = JNull, licenseType = JNull, validFrom = JNull,
                 validUntil = JNull, features = JObj [], limits = JObj [],
                 warnings = [], raw = JObj [(''warnings'', JStr ''soon'')]\<rparr>)
   \<and> get_prop (JObj [(''warnings'', JStr ''soon'')]) ''warnings'' = Inr (JStr ''soon'')"
proof -
  let ?d = "JObj [(''warnings'', JStr ''soon'')]"
  have g: "get_prop ?d ''warnings'' = Inr (JStr ''soon'')"
    by simp
  have na: "\<forall>xs. JStr ''soon'' \<noteq> JArr xs"
    by simp
  obtain res where r: "normalizeLicenseStatus ?d = Inr res"
    using normalize_total [of ?d] by blast
  have t: "truthy ?d"
    by simp
  obtain s where s: "res = Some s"
    using r t by (auto simp: normalize_truthy)
  have w: "warnings s = []"
    using normalize_total [of ?d] r s g na by blast
  have "s = \<lparr>status = JStr ''unknown'', statusMessage = JStr [], isValid = False,
                 licenseId = JNull, customerName = JNull, editionCode = JNull,
                 editionName = JNull, licenseType = JNull, validFrom = JNull,
                 validUntil = JNull, features = JObj [], limits = JObj [],
                 warnings = warnings s, raw = ?d\<rparr>"
    using r s
    by (auto simp: normalizeLicenseStatus_def inherited_def object_prototype_methods_def
        nullish_or_def falsy_or_def)
  then show ?thesis
    using r s w g by simp
qed

section \<open>The entitlement evaluator: what it answers\<close>

lemma get_prop_features: "\<exists>v. get_prop (falsy_or f (JObj [])) k = Inr v"
proof -
  have "truthy (falsy_or f (JObj []))"
    by (simp add: falsy_or_def)
  then show ?thesis
    using get_prop_truthy by blast
qed

lemma canUse_valid:
  assumes "isValid l" and "truthy k" and "js_to_string big k = Inr key"
    and "get_prop (falsy_or (features l) (JObj [])) key = Inr feature"
  shows "canUse big (Some l) k =
     (if feature = JUndefined then Inr False
      else if js_typeof feature = ''boolean'' then Inr (truthy feature)
      else if js_typeof feature = ''object'' \<and> feature \<noteq> JNull then
        bindE (has_prop ''enabled'' feature) (\<lambda>present.
          if present then bindE (get_prop feature ''enabled'') (\<lambda>enabled. Inr (truthy enabled))
          else Inr True)
      else Inr False)"
  using assms by (simp add: canUse_def)

lemma canUse_text_key:
  assumes "isValid l" and "key \<noteq> []"
    and "get_prop (falsy_or (features l) (JObj [])) key = Inr feature"
  shows "canUse big (Some l) (JStr key) =
     (if feature = JUndefined then Inr False
      else if js_typeof feature = ''boolean'' then Inr (truthy feature)
      else if js_typeof feature = ''object'' \<and> feature \<noteq> JNull then
        bindE (has_prop ''enabled'' feature) (\<lambda>present.
          if present then bindE (get_prop feature ''enabled'') (\<lambda>enabled. Inr (truthy enabled))
          else Inr True)
      else Inr False)"
proof -
  have k: "truthy (JStr key)"
    using assms(2) by simp
  have c: "js_to_string big (JStr key) = Inr key"
    by simp
  show ?thesis
    by (rule canUse_valid [OF assms(1) k c assms(3)])
qed

text \<open>
  For a text key \<open>canUse\<close> never throws, whatever the snapshot holds under
  \<open>features\<close>.
\<close>

lemma canUse_total: "\<exists>b. canUse big lic (JStr key) = Inr b"
proof (cases lic)
  case None
  then show ?thesis by (auto simp: canUse_def)
next
  case (Some l)
  obtain feature where f: "get_prop (falsy_or (features l) (JObj [])) key = Inr feature"
    using get_prop_features by blast
  show ?thesis
  proof (cases "isValid l \<and> key \<noteq> []")
    case True
    then have "canUse big (Some l) (JStr key) =
       (if feature = JUndefined then Inr False
        else if js_typeof feature = ''boolean'' then Inr (truthy feature)
        else if js_typeof feature = ''object'' \<and> feature \<noteq> JNull then
          bindE (has_prop ''enabled'' feature) (\<lambda>present.
            if present then bindE (get_prop feature ''enabled'') (\<lambda>enabled. Inr (truthy enabled))
            else Inr True)
        else Inr False)"
      using canUse_text_key f by blast
    then show ?thesis
      using Some by (cases feature) (auto simp: not_inherited_enabled index_of_key_enabled)
  next
    case False
    then show ?thesis
      using Some by (auto simp: canUse_def)
  qed
qed


lemma example_license_valid: "isValid example_license"
  by (simp add: example_license_def)






text \<open>
  C2. Without a snapshot, and with a snapshot whose \<open>isValid\<close> is false, \<open>canUse\<close>
  answers \<open>false\<close> for every key, whatever \<open>features\<close> holds.
\<close>

theorem canUse_invalid_false:
  "canUse big None k = Inr False \<and> (\<not> isValid l \<longrightarrow> canUse big (Some l) k = Inr False)"
  by (simp add: canUse_def)

text \<open>The expired license grants \<open>a\<close> in its features and is refused all the same.\<close>

theorem canUse_invalid_false_witness:
  "\<not> isValid expired_license
   \<and> get_prop (features expired_license) ''a'' = Inr (JBool True)
   \<and> canUse int_digits (Some expired_license) (JStr ''a'') = Inr False
   \<and> canUse int_digits None (JStr ''a'') = Inr False"
proof -
  have h: "\<not> isValid expired_license"
    by (simp add: expired_license_def)
  have g: "get_prop (features expired_license) ''a'' = Inr (JBool True)"
    by (simp add: expired_license_def example_license_def example_features_def)
  show ?thesis
    using canUse_invalid_false [of int_digits "JStr ''a''" expired_license] h g by simp
qed

text \<open>
  C8. With a valid snapshot, \<open>canUse\<close> answers \<open>true\<close> when the key is absent
  (\<open>undefined\<close> or \<open>null\<close>) or the empty text.
\<close>

theorem canUse_no_key:
  assumes "isValid l" and "k = JUndefined \<or> k = JNull \<or> k = JStr []"
  shows "canUse big (Some l) k = Inr True"
  using assms by (auto simp: canUse_def)

theorem canUse_no_key_witness:
  "isValid example_license
   \<and> canUse int_digits (Some example_license) JNull = Inr True
   \<and> canUse int_digits (Some example_license) (JStr []) = Inr True"
proof -
  note v = example_license_valid
  have "canUse int_digits (Some example_license) JNull = Inr True"
    using canUse_no_key [OF v, of JNull int_digits] by simp
  moreover have "canUse int_digits (Some example_license) (JStr []) = Inr True"
    using canUse_no_key [OF v, of "JStr []" int_digits] by simp
  ultimately show ?thesis
    using v by simp
qed

text \<open>
  C9. Two snapshots that agree on \<open>isValid\<close> and on \<open>features\<close> get the same answer
  from \<open>canUse\<close> for every key, whatever their other fields hold.
\<close>

theorem canUse_depends_on_isValid_features:
  assumes "isValid l1 = isValid l2" and "features l1 = features l2"
  shows "canUse big (Some l1) k = canUse big (Some l2) k"
  using assms by (simp add: canUse_def)

theorem canUse_depends_on_isValid_features_witness:
  "isValid (example_license\<lparr>status := JStr ''grace'', limits := JObj [(''seats'', JNum 3)]\<rparr>)
     = isValid example_license
   \<and> features (example_license\<lparr>status := JStr ''grace'', limits := JObj [(''seats'', JNum 3)]\<rparr>)
     = features example_license
   \<and> example_license\<lparr>status := JStr ''grace'', limits := JObj [(''seats'', JNum 3)]\<rparr>
     \<noteq> example_license
   \<and> canUse int_digits
        (Some (example_license\<lparr>status := JStr ''grace'', limits := JObj [(''seats'', JNum 3)]\<rparr>))
        (JStr ''c'')
     = canUse int_digits (Some example_license) (JStr ''c'')"
proof -
  let ?l = "example_license\<lparr>status := JStr ''grace'', limits := JObj [(''seats'', JNum 3)]\<rparr>"
  have i: "isValid ?l = isValid example_license"
    by simp
  have f: "features ?l = features example_license"
    by simp
  have d: "?l \<noteq> example_license"
  proof
    assume "?l = example_license"
    then have "status ?l = status example_license"
      by (rule arg_cong)
    then show False
      by (simp add: example_license_def)
  qed
  show ?thesis
    using canUse_depends_on_isValid_features [OF i f, of int_digits "JStr ''c''"] i f d by blast
qed

section \<open>The reason shown for a disabled feature\<close>

lemma normalize_unprintable_document:
  "normalizeLicenseStatus unprintable_document = Inr (Some unprintable_license)"
  by (simp add: normalizeLicenseStatus_def unprintable_document_def unprintable_license_def
      inherited_def object_prototype_methods_def nullish_or_def falsy_or_def)

lemma disabledReason_invalid:
  "\<not> isValid l \<Longrightarrow>
   disabledReason big (Some l) k False =
     bindE (js_to_string big (status l)) (\<lambda>t. Inr (Some (''License status: '' @ t)))"
  by (simp add: disabledReason_def)

lemma disabledReason_valid:
  "isValid l \<Longrightarrow>
   disabledReason big (Some l) k False =
     bindE (js_to_string big k) (\<lambda>t.
       Inr (Some (''Feature '' @ [CHR 0x27] @ t @ [CHR 0x27] @ '' is not granted in this license'')))"
  by (simp add: disabledReason_def)

text \<open>
  C6, as the code has it. \<open>disabledReason\<close> returns \<open>null\<close> when the feature was
  allowed. Otherwise: with no snapshot the message \<open>No license installed\<close>; with a
  snapshot whose \<open>isValid\<close> is false the message \<open>License status: \<close> followed by the
  text of the snapshot's \<open>status\<close>, whenever the status converts to text: the status
  itself when it is a text, \<open>null\<close>, \<open>true\<close> or \<open>false\<close>, the digits of a safe integer,
  \<open>[object Object]\<close> for an object with no member \<open>toString\<close>; with a valid snapshot
  the message that names the feature key as not granted, whenever the key converts
  to text, as every text key does.
\<close>

theorem disabledReason_precedence:
  "disabledReason big lic k True = Inr None
   \<and> disabledReason big None k False = Inr (Some ''No license installed'')
   \<and> (\<not> isValid l \<longrightarrow>
        (\<forall>t. js_to_string big (status l) = Inr t \<longrightarrow>
           disabledReason big (Some l) k False = Inr (Some (''License status: '' @ t)))
      \<and> (\<forall>s. status l = JStr s \<longrightarrow>
           disabledReason big (Some l) k False = Inr (Some (''License status: '' @ s)))
      \<and> (status l = JNull \<longrightarrow>
           disabledReason big (Some l) k False = Inr (Some ''License status: null''))
      \<and> (\<forall>b. status l = JBool b \<longrightarrow>
           disabledReason big (Some l) k False =
             Inr (Some (''License status: '' @ (if b then ''true'' else ''false''))))
      \<and> (\<forall>n. status l = JNum n \<longrightarrow> \<bar>n\<bar> \<le> 9007199254740991 \<longrightarrow>
           disabledReason big (Some l) k False = Inr (Some (''License status: '' @ int_digits n)))
      \<and> (\<forall>kvs. status l = JObj kvs \<longrightarrow> ''toString'' \<notin> fst ` set kvs \<longrightarrow>
           disabledReason big (Some l) k False = Inr (Some ''License status: [object Object]'')))
   \<and> (isValid l \<longrightarrow>
        (\<forall>t. js_to_string big k = Inr t \<longrightarrow>
           disabledReason big (Some l) k False =
             Inr (Some (''Feature '' @ [CHR 0x27] @ t @ [CHR 0x27]
                        @ '' is not granted in this license'')))
      \<and> (\<forall>s. k = JStr s \<longrightarrow>
           disabledReason big (Some l) k False =
             Inr (Some (''Feature '' @ [CHR 0x27] @ s @ [CHR 0x27]
                        @ '' is not granted in this license''))))"
proof -
  have a: "disabledReason big lic k True = Inr None"
    by (simp add: disabledReason_def)
  have b: "disabledReason big None k False = Inr (Some ''No license installed'')"
    by (simp add: disabledReason_def)
  have c: "\<not> isValid l \<longrightarrow>
        (\<forall>t. js_to_string big (status l) = Inr t \<longrightarrow>
           disabledReason big (Some l) k False = Inr (Some (''License status: '' @ t)))
      \<and> (\<forall>s. status l = JStr s \<longrightarrow>
           disabledReason big (Some l) k False = Inr (Some (''License status: '' @ s)))
      \<and> (status l = JNull \<longrightarrow>
           disabledReason big (Some l) k False = Inr (Some ''License status: null''))
      \<and> (\<forall>b. status l = JBool b \<longrightarrow>
           disabledReason big (Some l) k False =
             Inr (Some (''License status: '' @ (if b then ''true'' else ''false''))))
      \<and> (\<forall>n. status l = JNum n \<longrightarrow> \<bar>n\<bar> \<le> 9007199254740991 \<longrightarrow>
           disabledReason big (Some l) k False = Inr (Some (''License status: '' @ int_digits n)))
      \<and> (\<forall>kvs. status l = JObj kvs \<longrightarrow> ''toString'' \<notin> fst ` set kvs \<longrightarrow>
           disabledReason big (Some l) k False = Inr (Some ''License status: [object Object]''))"
    by (auto simp: disabledReason_invalid number_to_string_def own_lookup_None [THEN iffD2])
  have d: "isValid l \<longrightarrow>
        (\<forall>t. js_to_string big k = Inr t \<longrightarrow>
           disabledReason big (Some l) k False =
             Inr (Some (''Feature '' @ [CHR 0x27] @ t @ [CHR 0x27]
                        @ '' is not granted in this license'')))
      \<and> (\<forall>s. k = JStr s \<longrightarrow>
           disabledReason big (Some l) k False =
             Inr (Some (''Feature '' @ [CHR 0x27] @ s @ [CHR 0x27]
                        @ '' is not granted in this license'')))"
    by (auto simp: disabledReason_valid)
  show ?thesis
    using a b c d by blast
qed

text \<open>
  The precedence scenario: an expired license, a valid one that lacks \<open>z\<close>, no
  license; and a license whose status is the number 5.
\<close>

theorem disabledReason_precedence_witness:
  "\<not> isValid expired_license \<and> isValid example_license
   \<and> disabledReason int_digits (Some expired_license) (JStr ''z'') False
        = Inr (Some ''License status: expired'')
   \<and> disabledReason int_digits (Some (expired_license\<lparr>status := JNum 5\<rparr>)) (JStr ''z'') False
        = Inr (Some ''License status: 5'')
   \<and> disabledReason int_digits (Some example_license) (JStr ''z'') False
        = Inr (Some (''Feature '' @ [CHR 0x27] @ ''z'' @ [CHR 0x27]
                     @ '' is not granted in this license''))
   \<and> disabledReason int_digits None (JStr ''z'') False = Inr (Some ''No license installed'')
   \<and> disabledReason int_digits (Some example_license) (JStr ''a'') True = Inr None"
proof -
  have h: "\<not> isValid expired_license"
    by (simp add: expired_license_def)
  have st: "status expired_license = JStr ''expired''"
    by (simp add: expired_license_def)
  have h5: "\<not> isValid (expired_license\<lparr>status := JNum 5\<rparr>)"
    by (simp add: expired_license_def)
  have st5: "status (expired_license\<lparr>status := JNum 5\<rparr>) = JNum 5"
    by simp
  have d5: "int_digits 5 = ''5''"
    by code_simp
  note v = example_license_valid
  have "disabledReason int_digits (Some expired_license) (JStr ''z'') False
          = Inr (Some ''License status: expired'')"
    using disabledReason_precedence [of int_digits None "JStr ''z''" expired_license] h st
    by simp
  moreover have "disabledReason int_digits (Some (expired_license\<lparr>status := JNum 5\<rparr>))
          (JStr ''z'') False = Inr (Some ''License status: 5'')"
    using disabledReason_precedence
      [of int_digits None "JStr ''z''" "expired_license\<lparr>status := JNum 5\<rparr>"] h5 st5 d5
    by (simp add: number_to_string_def)
  moreover have "disabledReason int_digits (Some example_license) (JStr ''z'') False
        = Inr (Some (''Feature '' @ [CHR 0x27] @ ''z'' @ [CHR 0x27]
                     @ '' is not granted in this license''))"
    using disabledReason_precedence [of int_digits None "JStr ''z''" example_license] v by simp
  moreover have "disabledReason int_digits None (JStr ''z'') False
        = Inr (Some ''No license installed'')"
    using disabledReason_precedence [of int_digits None "JStr ''z''" example_license] by simp
  moreover have "disabledReason int_digits (Some example_license) (JStr ''a'') True = Inr None"
    using disabledReason_precedence
      [of int_digits "Some example_license" "JStr ''a''" example_license]
    by simp
  ultimately show ?thesis
    using h v by simp
qed

text \<open>
  C6 as stated fails: the document \<open>{"status": {"toString": 1}}\<close> gives a snapshot
  that is not valid, and for it \<open>disabledReason\<close> returns no message: the template
  literal cannot convert the status to text and throws a TypeError.
\<close>

theorem disabledReason_throws:
  "normalizeLicenseStatus unprintable_document = Inr (Some unprintable_license)
   \<and> \<not> isValid unprintable_license
   \<and> disabledReason int_digits (Some unprintable_license) (JStr ''pipeline_execution'') False
        = Inl (TypeError ''Cannot convert object to primitive value'')"
  by (simp add: normalize_unprintable_document)
     (simp add: unprintable_license_def disabledReason_def)

section \<open>The status store: one refresh\<close>

lemma loadStatus_body_rejected:
  "loadStatus_body (Inl err) =
     ([SetLoading True, SetError None, ConsoleError err, SetError (Some err), SetLicense None,
       SetLoading False], Inr ())"
  by (simp add: loadStatus_body_def seq_def emit_def settled_def try_catch_def try_finally_def)

lemma loadStatus_body_resolved:
  "normalizeLicenseStatus r = Inr n \<Longrightarrow>
   loadStatus_body (Inr r) =
     ([SetLoading True, SetError None, SetLicense n, SetLoading False], Inr ())"
  by (simp add: loadStatus_body_def seq_def emit_def settled_def try_catch_def try_finally_def)

lemma loadStatus_body_ends:
  "\<exists>es. loadStatus_body fetched = (es @ [SetLoading False], Inr ())"
proof (cases fetched)
  case (Inl err)
  then show ?thesis
    by (simp add: loadStatus_body_rejected)
next
  case (Inr r)
  obtain n where "normalizeLicenseStatus r = Inr n"
    using normalize_never_throws by blast
  then show ?thesis
    using Inr by (simp add: loadStatus_body_resolved)
qed

text \<open>
  The end-to-end scenario: a fetch that resolves with the scenario document installs
  its snapshot, with no error and \<open>loading\<close> cleared.
\<close>

lemma loadStatus_example_document:
  "loadStatus st (Inr example_document) =
     (Inr (), \<lparr>license = Some example_license, loading = False, error = None\<rparr>)"
proof -
  have "loadStatus_body (Inr example_document) =
      ([SetLoading True, SetError None, SetLicense (Some example_license), SetLoading False],
       Inr ())"
    using normalize_example_document by (rule loadStatus_body_resolved)
  then show ?thesis
    by (simp add: loadStatus_def)
qed

text \<open>
  C5. When the awaited fetch rejects with \<open>err\<close>, \<open>loadStatus\<close> leaves the store with no
  snapshot, with \<open>err\<close> as the recorded error and with \<open>loading\<close> cleared, and its own
  promise resolves: the failure is not rethrown. However the fetch settles,
  \<open>loadStatus\<close> completes normally and its last effect is \<open>setLoading(false)\<close>.
\<close>

theorem loadStatus_rejected:
  "loadStatus st (Inl err) = (Inr (), \<lparr>license = None, loading = False, error = Some err\<rparr>)
   \<and> (\<forall>fetched. \<exists>es. loadStatus_body fetched = (es @ [SetLoading False], Inr ()))"
  using loadStatus_body_ends by (simp add: loadStatus_def loadStatus_body_rejected)

text \<open>A store that holds the scenario license, and a fetch answered by HTTP 500.\<close>

theorem loadStatus_rejected_witness:
  "loadStatus \<lparr>license = Some example_license, loading = False, error = None\<rparr>
     (Inl (HttpError 500 JNull))
   = (Inr (), \<lparr>license = None, loading = False, error = Some (HttpError 500 JNull)\<rparr>)"
  using loadStatus_rejected
    [of "\<lparr>license = Some example_license, loading = False, error = None\<rparr>" "HttpError 500 JNull"]
  by simp



end
